theory Spec2Isabelle
  imports Complex_Main
begin

section \<open>Batch sampling driver of HunyuanCustom (\<open>hymm_sp/sample_batch.py\<close>)\<close>

text \<open>
  The driver \<open>main\<close> parses the arguments, prepares the output folder, loads the
  sampler and one of three datasets, and then, for every batch of the loader, encodes the
  conditioning tensors with the VAE, calls \<open>predict\<close> and (on rank 0) writes the samples.

  Modelling decisions.
  \<^item> A tensor is represented by its shape; \<open>.to(device)\<close>, \<open>.clone()\<close>, \<open>ones_like\<close>,
    \<open>* 2 - 1.\<close> and \<open>mul_\<close> keep the shape and therefore leave the representation
    unchanged. The arithmetic of line 63 on one element is modelled apart from the state,
    in the last subsection of the definitions.
  \<^item> The VAE, the sampler, the dataset classes, \<open>from_pretrained\<close> and \<open>ffmpeg\<close> are not
    part of the file. They are parameters (record \<open>env\<close>), and so is what the shell does
    with a command line outside the part of its syntax that is modelled. The VAE is stochastic and the
    sampler is stateful, so each of these takes the history of calls made so far (the
    trace) next to its argument; any sequence of outcomes can be represented this way.
  \<^item> Python exceptions are values: a computation returns either \<open>Inl (e, s)\<close>, the
    exception together with the state reached when it was raised, or \<open>Inr (x, s)\<close>.
    The file has no \<open>try\<close>, so an exception ends \<open>main\<close>.
  \<^item> The file system is the set of paths that exist.
\<close>

subsection \<open>Data\<close>

type_synonym tensor = "nat list"

datatype error =
    ValueError
  | KeyError
  | IndexError
  | RuntimeError
  | EinopsError
  | ExternalError string

text \<open>The fields of \<open>args\<close> that \<open>main\<close> reads or writes.\<close>

record config =
  ckpt :: string
  save_path :: string
  save_path_suffix :: string
  video_condition :: bool
  audio_condition :: bool
  video_size :: "int list"
  sample_n_frames :: int
  add_pos_prompt :: string
  add_neg_prompt :: string
  audio_strength :: real
  cfg_scale :: real
  num_images :: int
  infer_steps :: int
  flow_shift_eval_video :: real
  use_linear_quadratic_schedule :: bool
  linear_schedule_end :: int
  use_deepcache :: int
  fps :: int

text \<open>
  One batch of the loader (\<open>batch_size=1\<close>). The keys that \<open>main\<close> reads without a
  test are fields; the keys it tests with \<open>in batch\<close>, and the two keys only the video
  dataset supplies, are optional.
\<close>

record batch =
  pixel_value_llava :: tensor
  pixel_value_ref :: tensor
  uncond_pixel_value_llava :: tensor
  prompt :: string
  negative_prompt :: string
  name :: string
  data_name :: string
  seed :: int
  audio_prompts :: "tensor option"
  audio_path :: "string option"
  pixel_value_bg :: "tensor option"
  pixel_value_mask :: "tensor option"

text \<open>The keyword arguments of \<open>hunyuan_video_sampler.predict\<close>, in the order of the call.\<close>

record request =
  kw_prompt :: string
  kw_name :: string
  kw_size :: "int list"
  kw_seed :: int
  kw_pixel_value_llava :: tensor
  kw_uncond_pixel_value_llava :: tensor
  kw_ref_latents :: tensor
  kw_uncond_ref_latents :: tensor
  kw_bg_latents :: "tensor option"
  kw_audio_prompts :: "tensor option"
  kw_audio_strength :: real
  kw_video_length :: int
  kw_guidance_scale :: real
  kw_num_images_per_prompt :: int
  kw_negative_prompt :: string
  kw_infer_steps :: int
  kw_flow_shift :: real
  kw_use_linear_quadratic_schedule :: bool
  kw_linear_schedule_end :: int
  kw_use_deepcache :: int

datatype event =
    EnableTiling
  | DisableTiling
  | Encode tensor
  | Predict request
  | SaveVideosGrid string int
  | OsSystem string
  | LoggerInfo string

datatype dataset_kind = VideoDataset | AudioDataset | ImageDataset

record env =
  from_pretrained :: "config \<Rightarrow> error + config"
  load_dataset :: "dataset_kind \<Rightarrow> config \<Rightarrow> error + batch list"
  vae_encode :: "event list \<Rightarrow> tensor \<Rightarrow> error + tensor"
  sampler_predict :: "event list \<Rightarrow> request \<Rightarrow> error + tensor list"
  ffmpeg_ok :: "event list \<Rightarrow> string \<Rightarrow> string \<Rightarrow> string \<Rightarrow> bool"
  command_other :: "event list \<Rightarrow> string list \<Rightarrow> string set \<Rightarrow> string set"
  shell_other :: "event list \<Rightarrow> string \<Rightarrow> string set \<Rightarrow> string set"

record state =
  args :: config
  tiling :: bool
  fs :: "string set"
  trace :: "event list"

subsection \<open>Computations that change the state and may raise\<close>

type_synonym 'a run = "state \<Rightarrow> (error \<times> state) + ('a \<times> state)"

definition ret :: "'a \<Rightarrow> 'a run" where
  "ret x = (\<lambda>s. Inr (x, s))"

definition raise :: "error \<Rightarrow> 'a run" where
  "raise e = (\<lambda>s. Inl (e, s))"

definition and_then :: "'a run \<Rightarrow> ('a \<Rightarrow> 'b run) \<Rightarrow> 'b run" where
  "and_then m f = (\<lambda>s. case m s of Inl es \<Rightarrow> Inl es | Inr (x, s') \<Rightarrow> f x s')"

definition get_args :: "config run" where
  "get_args = (\<lambda>s. Inr (args s, s))"

definition get_trace :: "(event list) run" where
  "get_trace = (\<lambda>s. Inr (trace s, s))"

definition emit_event :: "event \<Rightarrow> unit run" where
  "emit_event ev = (\<lambda>s. Inr ((), s\<lparr>trace := trace s @ [ev]\<rparr>))"

definition lift_result :: "error + 'a \<Rightarrow> 'a run" where
  "lift_result r = (case r of Inl e \<Rightarrow> raise e | Inr x \<Rightarrow> ret x)"

definition final_state :: "(error \<times> state) + ('a \<times> state) \<Rightarrow> state" where
  "final_state r = (case r of Inl (e, s) \<Rightarrow> s | Inr (x, s) \<Rightarrow> s)"

definition raised :: "(error \<times> state) + ('a \<times> state) \<Rightarrow> error option" where
  "raised r = (case r of Inl (e, s) \<Rightarrow> Some e | Inr (x, s) \<Rightarrow> None)"

fun requests_of :: "event list \<Rightarrow> request list" where
  "requests_of [] = []"
| "requests_of (Predict rq # evs) = rq # requests_of evs"
| "requests_of (ev # evs) = requests_of evs"

fun is_write :: "event \<Rightarrow> bool" where
  "is_write (SaveVideosGrid p f) = True"
| "is_write (OsSystem cs) = True"
| "is_write ev = False"

subsection \<open>Start-up: output folder and rank (lines 19 to 37)\<close>

text \<open>Line 27.\<close>

definition resolve_save_path :: "config \<Rightarrow> string" where
  "resolve_save_path a =
     (if save_path_suffix a = [] then save_path a
      else save_path a @ ''_'' @ save_path_suffix a)"

text \<open>
  \<open>os.makedirs(p, exist_ok=True)\<close>: afterwards \<open>p\<close> exists. The intermediate directories
  it also creates are not tracked.
\<close>

definition makedirs :: "string \<Rightarrow> unit run" where
  "makedirs p = (\<lambda>s. Inr ((), s\<lparr>fs := insert p (fs s)\<rparr>))"

text \<open>Lines 27 to 29. The test of line 28 reads \<open>args.save_path\<close>.\<close>

definition create_save_folder :: "config \<Rightarrow> string run" where
  "create_save_folder a =
     (let sp = resolve_save_path a in
      (\<lambda>s. if save_path a \<notin> fs s then and_then (makedirs sp) (\<lambda>_. ret sp) s
           else ret sp s))"

text \<open>Lines 32 to 37: \<open>sp_size\<close> is \<open>nccl_info.sp_size\<close>, \<open>dist_rank\<close> what
  \<open>torch.distributed.get_rank()\<close> returns.\<close>

definition resolve_rank :: "int \<Rightarrow> int \<Rightarrow> int" where
  "resolve_rank sp_size dist_rank = (if sp_size > 1 then dist_rank else 0)"

subsection \<open>The loader (lines 43 to 50)\<close>

definition select_dataset :: "config \<Rightarrow> dataset_kind" where
  "select_dataset a =
     (if video_condition a then VideoDataset
      else if audio_condition a then AudioDataset
      else ImageDataset)"

text \<open>
  \<open>torch.utils.data.DistributedSampler\<close> with \<open>shuffle=False, drop_last=False\<close>, as
  line 49 builds it, for a dataset of length \<open>n\<close>: the constructor rejects a rank outside
  \<open>[0, num_replicas)\<close>; the iterator pads \<open>range(n)\<close> with its own beginning up to
  \<open>total_size = ceil(n / num_replicas) * num_replicas\<close> and returns
  \<open>indices[rank:total_size:num_replicas]\<close>.
\<close>

definition ceil_div :: "nat \<Rightarrow> nat \<Rightarrow> nat" where
  "ceil_div a b = (a + b - 1) div b"

definition strided :: "nat list \<Rightarrow> nat \<Rightarrow> nat \<Rightarrow> nat \<Rightarrow> nat list" where
  "strided xs start stop step =
     map (nth xs) (filter (\<lambda>i. start \<le> i \<and> (i - start) mod step = 0) [0..<min stop (length xs)])"

definition DistributedSampler :: "nat \<Rightarrow> nat \<Rightarrow> nat \<Rightarrow> error + nat list" where
  "DistributedSampler num_replicas rank n =
     (if rank \<ge> num_replicas then Inl ValueError
      else
        let num_samples = ceil_div n num_replicas;
            total_size = num_samples * num_replicas;
            indices = [0..<n];
            padding_size = total_size - n;
            padded =
              (if padding_size \<le> n then indices @ take padding_size indices
               else indices @ take padding_size (concat (replicate (ceil_div padding_size n) indices)))
        in Inr (strided padded rank total_size num_replicas))"

text \<open>\<open>DataLoader(dataset, batch_size=1, sampler=sampler)\<close>: one batch per index, in the
  sampler's order.\<close>

fun fetch :: "'a list \<Rightarrow> nat list \<Rightarrow> error + 'a list" where
  "fetch ds [] = Inr []"
| "fetch ds (i # is) =
     (if i < length ds then
        (case fetch ds is of Inl e \<Rightarrow> Inl e | Inr bs \<Rightarrow> Inr (ds ! i # bs))
      else Inl IndexError)"

text \<open>Lines 49 and 50. Neither the rank nor the number of processes is passed on.\<close>

definition json_loader :: "'a list \<Rightarrow> error + 'a list" where
  "json_loader dataset =
     (case DistributedSampler 1 0 (length dataset) of
        Inl e \<Rightarrow> Inl e
      | Inr indices \<Rightarrow> fetch dataset indices)"

subsection \<open>Latent preparation (lines 63 to 83)\<close>

text \<open>Line 64, \<open>rearrange(x, "b c h w -> b c 1 h w")\<close>.\<close>

definition rearrange_b_c_1_h_w :: "tensor \<Rightarrow> tensor run" where
  "rearrange_b_c_1_h_w x =
     (case x of [b, c, h, w] \<Rightarrow> ret [b, c, 1, h, w] | _ \<Rightarrow> raise EinopsError)"

definition enable_tiling :: "unit run" where
  "enable_tiling = (\<lambda>s. Inr ((), s\<lparr>tiling := True, trace := trace s @ [EnableTiling]\<rparr>))"

definition disable_tiling :: "unit run" where
  "disable_tiling = (\<lambda>s. Inr ((), s\<lparr>tiling := False, trace := trace s @ [DisableTiling]\<rparr>))"

text \<open>\<open>vae.encode(x).latent_dist.sample()\<close>.\<close>

definition encode_sample :: "env \<Rightarrow> tensor \<Rightarrow> tensor run" where
  "encode_sample E x =
     and_then get_trace (\<lambda>h.
     and_then (emit_event (Encode x)) (\<lambda>_.
     lift_result (vae_encode E h x)))"

text \<open>\<open>batch[key]\<close> for a key that may be missing.\<close>

definition batch_get :: "'a option \<Rightarrow> 'a run" where
  "batch_get v = (case v of None \<Rightarrow> raise KeyError | Some x \<Rightarrow> ret x)"

text \<open>
  \<open>torch.cat([a, b], dim=1)\<close> on shapes. A zero-dimensional tensor is rejected
  (\<open>RuntimeError\<close>). A one-dimensional empty tensor, of shape \<open>[0]\<close>, is skipped; when
  both are skipped the result has shape \<open>[0]\<close>. The first tensor that is not skipped must
  have a dimension 1 (\<open>IndexError\<close> otherwise). Two tensors that are not skipped must have
  the same number of dimensions and the same size in every dimension but dimension 1
  (\<open>RuntimeError\<close> otherwise); the result has the sum of their sizes in dimension 1.
\<close>

definition cat_skip :: "tensor \<Rightarrow> bool" where
  "cat_skip t \<longleftrightarrow> t = [0]"

definition cat_shapes_match :: "tensor \<Rightarrow> tensor \<Rightarrow> bool" where
  "cat_shapes_match a b \<longleftrightarrow> length a = length b \<and> take 1 a = take 1 b \<and> drop 2 a = drop 2 b"

definition cat_dim1 :: "tensor \<Rightarrow> tensor \<Rightarrow> error + tensor" where
  "cat_dim1 a b =
     (if a = [] \<or> b = [] then Inl RuntimeError
      else if cat_skip a \<and> cat_skip b then Inr [0]
      else if length (if cat_skip a then b else a) < 2 then Inl IndexError
      else if cat_skip a then Inr b
      else if cat_skip b then Inr a
      else if cat_shapes_match a b then Inr (a[1 := a ! 1 + b ! 1])
      else Inl RuntimeError)"

definition torch_cat_dim1 :: "tensor \<Rightarrow> tensor \<Rightarrow> tensor run" where
  "torch_cat_dim1 a b = lift_result (cat_dim1 a b)"

text \<open>Line 76, \<open>_, _, t, h, w = bg_latents.shape\<close>.\<close>

definition unpack_shape5 :: "tensor \<Rightarrow> (nat \<times> nat \<times> nat) run" where
  "unpack_shape5 x =
     (case x of [b, c, t, h, w] \<Rightarrow> ret (t, h, w) | _ \<Rightarrow> raise ValueError)"

definition set_video_size :: "int list \<Rightarrow> unit run" where
  "set_video_size v = (\<lambda>s. Inr ((), s\<lparr>args := (args s)\<lparr>video_size := v\<rparr>\<rparr>))"

definition set_sample_n_frames :: "int \<Rightarrow> unit run" where
  "set_sample_n_frames n = (\<lambda>s. Inr ((), s\<lparr>args := (args s)\<lparr>sample_n_frames := n\<rparr>\<rparr>))"

text \<open>Lines 70 to 78.\<close>

definition encode_background :: "env \<Rightarrow> batch \<Rightarrow> tensor run" where
  "encode_background E b =
     and_then (batch_get (pixel_value_bg b)) (\<lambda>pixel_value_bg.
     and_then (encode_sample E pixel_value_bg) (\<lambda>bg_latents.
     and_then (batch_get (pixel_value_mask b)) (\<lambda>pixel_value_mask.
     and_then (encode_sample E pixel_value_mask) (\<lambda>mask_latents.
     and_then (torch_cat_dim1 bg_latents mask_latents) (\<lambda>bg_latents.
     and_then (unpack_shape5 bg_latents) (\<lambda>(t, h, w).
     and_then (set_video_size [int h * 8, int w * 8]) (\<lambda>_.
     and_then (set_sample_n_frames ((int t - 1) * 4 + 1)) (\<lambda>_.
     ret bg_latents))))))))"

text \<open>Lines 66 to 83: the result is \<open>(ref_latents, uncond_ref_latents, bg_latents)\<close>.\<close>

definition latent_prepare :: "env \<Rightarrow> batch \<Rightarrow> tensor \<Rightarrow> (tensor \<times> tensor \<times> tensor option) run" where
  "latent_prepare E b pixel_value_ref_for_vae =
     and_then enable_tiling (\<lambda>_.
     and_then (encode_sample E pixel_value_ref_for_vae) (\<lambda>ref_latents.
     and_then (encode_sample E pixel_value_ref_for_vae) (\<lambda>uncond_ref_latents.
     and_then get_args (\<lambda>a.
     and_then (if video_condition a
               then and_then (encode_background E b) (\<lambda>bg_latents. ret (Some bg_latents))
               else ret None) (\<lambda>bg_latents.
     and_then disable_tiling (\<lambda>_.
     ret (ref_latents, uncond_ref_latents, bg_latents)))))))"

subsection \<open>The request (lines 84 to 107)\<close>

definition build_request ::
  "config \<Rightarrow> batch \<Rightarrow> tensor \<Rightarrow> tensor \<Rightarrow> tensor option \<Rightarrow> request" where
  "build_request a b ref_latents uncond_ref_latents bg_latents =
     \<lparr> kw_prompt = add_pos_prompt a @ prompt b,
       kw_name = name b,
       kw_size = video_size a,
       kw_seed = seed b,
       kw_pixel_value_llava = pixel_value_llava b,
       kw_uncond_pixel_value_llava = uncond_pixel_value_llava b,
       kw_ref_latents = ref_latents,
       kw_uncond_ref_latents = uncond_ref_latents,
       kw_bg_latents = bg_latents,
       kw_audio_prompts = audio_prompts b,
       kw_audio_strength = audio_strength a,
       kw_video_length = sample_n_frames a,
       kw_guidance_scale = cfg_scale a,
       kw_num_images_per_prompt = num_images a,
       kw_negative_prompt = add_neg_prompt a @ negative_prompt b,
       kw_infer_steps = infer_steps a,
       kw_flow_shift = flow_shift_eval_video a,
       kw_use_linear_quadratic_schedule = use_linear_quadratic_schedule a,
       kw_linear_schedule_end = linear_schedule_end a,
       kw_use_deepcache = use_deepcache a \<rparr>"

text \<open>Lines 52 to 85 and the arguments of the call of line 86: \<open>args\<close> is read after
  the latent preparation.\<close>

definition prepare_request :: "env \<Rightarrow> batch \<Rightarrow> request run" where
  "prepare_request E b =
     and_then (rearrange_b_c_1_h_w (pixel_value_ref b)) (\<lambda>pixel_value_ref_for_vae.
     and_then (latent_prepare E b pixel_value_ref_for_vae) (\<lambda>(ref_latents, uncond_ref_latents, bg_latents).
     and_then get_args (\<lambda>a.
     ret (build_request a b ref_latents uncond_ref_latents bg_latents))))"

definition predict :: "env \<Rightarrow> request \<Rightarrow> (tensor list) run" where
  "predict E rq =
     and_then get_trace (\<lambda>h.
     and_then (emit_event (Predict rq)) (\<lambda>_.
     lift_result (sampler_predict E h rq)))"

subsection \<open>Emission (lines 109 to 120)\<close>

definition save_videos_grid :: "string \<Rightarrow> int \<Rightarrow> unit run" where
  "save_videos_grid out_path f =
     (\<lambda>s. Inr ((), s\<lparr>fs := insert out_path (fs s), trace := trace s @ [SaveVideosGrid out_path f]\<rparr>))"

text \<open>
  \<open>os.system(line)\<close> hands the line to \<open>sh -c\<close>. The part of the shell's syntax that
  line 117 uses is modelled: words separated by blanks, commands separated by \<open>;\<close>, and
  single quotes, inside which every character up to the next single quote is literal. A
  line with an unterminated quote or an empty command is a syntax error, and the shell then
  runs nothing. Any other character outside quotes that is not a letter, a digit or one of
  \<open>- _ . /\<close> leaves the modelled part.
\<close>

definition sq :: char where
  "sq = CHR 0x27"

definition plain_char :: "char \<Rightarrow> bool" where
  "plain_char c \<longleftrightarrow>
     c \<in> set ''abcdefghijklmnopqrstuvwxyzABCDEFGHIJKLMNOPQRSTUVWXYZ0123456789-_./''"

datatype parsed = SyntaxError | Unsupported | Commands "string list list"

definition the_word :: "string option \<Rightarrow> string" where
  "the_word w = (case w of None \<Rightarrow> [] | Some x \<Rightarrow> x)"

definition end_word :: "string option \<Rightarrow> string list \<Rightarrow> string list" where
  "end_word w ws = (case w of None \<Rightarrow> ws | Some x \<Rightarrow> ws @ [x])"

text \<open>
  \<open>sh_lex inq w ws cs line\<close>: \<open>inq\<close> says whether the reader is inside single quotes,
  \<open>w\<close> is the word being read, \<open>ws\<close> the words of the command being read and \<open>cs\<close> the
  commands read so far.
\<close>

fun sh_lex :: "bool \<Rightarrow> string option \<Rightarrow> string list \<Rightarrow> string list list \<Rightarrow> string \<Rightarrow> parsed" where
  "sh_lex inq w ws cs [] =
     (if inq then SyntaxError
      else Commands (if end_word w ws = [] then cs else cs @ [end_word w ws]))"
| "sh_lex inq w ws cs (c # r) =
     (if inq then
        (if c = sq then sh_lex False w ws cs r
         else sh_lex True (Some (the_word w @ [c])) ws cs r)
      else if c = sq then sh_lex True (Some (the_word w)) ws cs r
      else if c = CHR '' '' then sh_lex False None (end_word w ws) cs r
      else if c = CHR '';'' then
        (if end_word w ws = [] then SyntaxError
         else sh_lex False None [] (cs @ [end_word w ws]) r)
      else if plain_char c then sh_lex False (Some (the_word w @ [c])) ws cs r
      else Unsupported)"

text \<open>
  One command. \<open>rm\<close> with one operand removes it, unless the operand begins with \<open>-\<close>:
  then \<open>rm\<close> reads it as options and removes nothing. \<open>ffmpeg\<close> with the arguments of
  line 117 leaves its output file when it succeeds; what a failed one leaves is not
  modelled. Every other command is left to \<open>command_other\<close>.
\<close>

definition run_command :: "env \<Rightarrow> event list \<Rightarrow> string list \<Rightarrow> string set \<Rightarrow> string set" where
  "run_command E h words files =
     (if length words = 2 \<and> words ! 0 = ''rm'' then
        (if take 1 (words ! 1) = ''-'' then files else files - {words ! 1})
      else if length words = 10 \<and> words ! 0 = ''ffmpeg'' \<and> words ! 1 = ''-i'' \<and>
              words ! 3 = ''-i'' \<and> words ! 5 = ''-shortest'' \<and>
              drop 7 words = [''-y'', ''-loglevel'', ''quiet''] then
        (if ffmpeg_ok E h (words ! 2) (words ! 4) (words ! 6) then insert (words ! 6) files
         else files)
      else command_other E h words files)"

text \<open>Commands separated by \<open>;\<close> run one after the other, whatever the exit status
  of the one before.\<close>

fun run_commands :: "env \<Rightarrow> event list \<Rightarrow> string list list \<Rightarrow> string set \<Rightarrow> string set" where
  "run_commands E h [] files = files"
| "run_commands E h (c # cs) files = run_commands E h cs (run_command E h c files)"

definition sh_c :: "env \<Rightarrow> event list \<Rightarrow> string \<Rightarrow> string set \<Rightarrow> string set" where
  "sh_c E h line files =
     (case sh_lex False None [] [] line of
        SyntaxError \<Rightarrow> files
      | Unsupported \<Rightarrow> shell_other E h line files
      | Commands cs \<Rightarrow> run_commands E h cs files)"

text \<open>\<open>os.system\<close> raises \<open>ValueError\<close> for a line with a null character and ignores the
  exit status of the shell.\<close>

definition os_system :: "env \<Rightarrow> string \<Rightarrow> unit run" where
  "os_system E line =
     (\<lambda>s. if CHR 0x00 \<in> set line then Inl (ValueError, s)
          else Inr ((), s\<lparr>fs := sh_c E (trace s) line (fs s), trace := trace s @ [OsSystem line]\<rparr>))"

definition logger_info :: "string \<Rightarrow> unit run" where
  "logger_info msg = emit_event (LoggerInfo msg)"

text \<open>The line of line 117.\<close>

definition mux_line :: "string \<Rightarrow> string \<Rightarrow> string \<Rightarrow> string" where
  "mux_line out_path audio out_audio_path =
     ''ffmpeg -i '' @ [sq] @ out_path @ [sq] @ '' -i '' @ [sq] @ audio @ [sq] @
     '' -shortest '' @ [sq] @ out_audio_path @ [sq] @ '' -y -loglevel quiet; rm '' @
     [sq] @ out_path @ [sq]"

text \<open>The body of the loop of line 111.\<close>

definition emit_sample :: "env \<Rightarrow> string \<Rightarrow> batch \<Rightarrow> unit run" where
  "emit_sample E sp b =
     (let out_path = sp @ ''/'' @ data_name b @ ''.mp4'' in
      and_then get_args (\<lambda>a.
      and_then (save_videos_grid out_path (fps a)) (\<lambda>_.
      and_then get_args (\<lambda>a.
      (case (audio_condition a, audio_path b) of
         (True, Some ap) \<Rightarrow>
           (let out_audio_path = sp @ ''/'' @ data_name b @ ''_audio.mp4'' in
            and_then (os_system E (mux_line out_path ap out_audio_path)) (\<lambda>_.
            logger_info (''Sample save to: '' @ out_audio_path)))
       | _ \<Rightarrow> logger_info (''Sample save to: '' @ out_path))))))"

fun emit_samples :: "env \<Rightarrow> string \<Rightarrow> batch \<Rightarrow> tensor list \<Rightarrow> unit run" where
  "emit_samples E sp b [] = ret ()"
| "emit_samples E sp b (x # xs) = and_then (emit_sample E sp b) (\<lambda>_. emit_samples E sp b xs)"

subsection \<open>The loop and \<open>main\<close>\<close>

text \<open>One iteration of the loop of line 51.\<close>

definition process_batch :: "env \<Rightarrow> int \<Rightarrow> string \<Rightarrow> batch \<Rightarrow> unit run" where
  "process_batch E rank sp b =
     and_then (prepare_request E b) (\<lambda>rq.
     and_then (predict E rq) (\<lambda>samples.
     if rank = 0 then emit_samples E sp b samples else ret ()))"

fun main_loop :: "env \<Rightarrow> int \<Rightarrow> string \<Rightarrow> batch list \<Rightarrow> unit run" where
  "main_loop E rank sp [] = ret ()"
| "main_loop E rank sp (b # bs) = and_then (process_batch E rank sp b) (\<lambda>_. main_loop E rank sp bs)"

definition load_sampler :: "env \<Rightarrow> unit run" where
  "load_sampler E =
     (\<lambda>s. case from_pretrained E (args s) of
             Inl e \<Rightarrow> Inl (e, s)
           | Inr a \<Rightarrow> Inr ((), s\<lparr>args := a\<rparr>))"

definition main :: "env \<Rightarrow> int \<Rightarrow> int \<Rightarrow> unit run" where
  "main E sp_size dist_rank =
     and_then get_args (\<lambda>a0.
     (\<lambda>s. if ckpt a0 \<notin> fs s then raise ValueError s
          else
            (and_then (create_save_folder a0) (\<lambda>sp.
             let rank = resolve_rank sp_size dist_rank in
             and_then (load_sampler E) (\<lambda>_.
             and_then get_args (\<lambda>a.
             and_then (lift_result (load_dataset E (select_dataset a) a)) (\<lambda>dataset.
             and_then (lift_result (json_loader dataset)) (\<lambda>batches.
             main_loop E rank sp batches)))))) s))"

subsection \<open>Properties of requests\<close>

text \<open>The size and the number of frames that line 77 and line 78 compute from the shape
  of a latent tensor.\<close>

definition latent_geometry :: "tensor \<Rightarrow> (int list \<times> int) option" where
  "latent_geometry x =
     (case x of
        [n, c, t, h, w] \<Rightarrow> Some ([int h * 8, int w * 8], (int t - 1) * 4 + 1)
      | _ \<Rightarrow> None)"

text \<open>The request has background latents, and its size and number of frames are the ones
  computed from their shape.\<close>

definition derived_geometry :: "request \<Rightarrow> bool" where
  "derived_geometry rq =
     (case kw_bg_latents rq of
        Some x \<Rightarrow> latent_geometry x = Some (kw_size rq, kw_video_length rq)
      | None \<Rightarrow> False)"

text \<open>The request has no background latents and the geometry of the configuration \<open>a\<close>.\<close>

definition configured_geometry :: "config \<Rightarrow> request \<Rightarrow> bool" where
  "configured_geometry a rq \<longleftrightarrow>
     kw_size rq = video_size a \<and> kw_video_length rq = sample_n_frames a \<and> kw_bg_latents rq = None"

text \<open>The requests passed to \<open>predict\<close> between the state \<open>s\<close> and a later state \<open>s'\<close>.\<close>

definition issued_requests :: "state \<Rightarrow> state \<Rightarrow> request list" where
  "issued_requests s s' = drop (length (requests_of (trace s))) (requests_of (trace s'))"

subsection \<open>Relations between the state before and after a step\<close>

definition static_args :: "config \<Rightarrow> config" where
  "static_args a = a\<lparr>video_size := [], sample_n_frames := 0\<rparr>"

definition frame :: "state \<Rightarrow> state \<Rightarrow> bool" where
  "frame s s' \<longleftrightarrow>
     fs s' = fs s \<and>
     requests_of (trace s') = requests_of (trace s) \<and>
     filter is_write (trace s') = filter is_write (trace s) \<and>
     static_args (args s') = static_args (args s)"

definition emit_frame :: "state \<Rightarrow> state \<Rightarrow> bool" where
  "emit_frame s s' \<longleftrightarrow>
     args s' = args s \<and> tiling s' = tiling s \<and> requests_of (trace s') = requests_of (trace s)"


text \<open>What one iteration does, in one statement.\<close>

definition batch_summary ::
  "int \<Rightarrow> batch \<Rightarrow> state \<Rightarrow> (error \<times> state) + (unit \<times> state) \<Rightarrow> request list \<Rightarrow> bool" where
  "batch_summary rank b s r X \<longleftrightarrow>
     requests_of (trace (final_state r)) = requests_of (trace s) @ X \<and>
     length X \<le> 1 \<and>
     static_args (args (final_state r)) = static_args (args s) \<and>
     (if video_condition (args s) then list_all derived_geometry X
      else list_all (configured_geometry (args s)) X \<and> args (final_state r) = args s) \<and>
     (X = [] \<longrightarrow> args (final_state r) = args s) \<and>
     list_all (\<lambda>rq. video_size (args (final_state r)) = kw_size rq \<and>
                    sample_n_frames (args (final_state r)) = kw_video_length rq) X \<and>
     (raised r = None \<longrightarrow> map kw_name X = [name b] \<and> \<not> tiling (final_state r)) \<and>
     (rank \<noteq> 0 \<longrightarrow> fs (final_state r) = fs s \<and>
        filter is_write (trace (final_state r)) = filter is_write (trace s))"

definition loop_summary ::
  "int \<Rightarrow> batch list \<Rightarrow> state \<Rightarrow> (error \<times> state) + (unit \<times> state) \<Rightarrow> request list \<Rightarrow> bool" where
  "loop_summary rank bs s r X \<longleftrightarrow>
     requests_of (trace (final_state r)) = requests_of (trace s) @ X \<and>
     length X \<le> length bs \<and>
     static_args (args (final_state r)) = static_args (args s) \<and>
     (if video_condition (args s) then list_all derived_geometry X
      else list_all (configured_geometry (args s)) X \<and> args (final_state r) = args s) \<and>
     (X = [] \<longrightarrow> args (final_state r) = args s) \<and>
     (X \<noteq> [] \<longrightarrow> video_size (args (final_state r)) = kw_size (last X) \<and>
                sample_n_frames (args (final_state r)) = kw_video_length (last X)) \<and>
     (raised r = None \<longrightarrow> map kw_name X = map name bs) \<and>
     (rank \<noteq> 0 \<longrightarrow> fs (final_state r) = fs s \<and>
        filter is_write (trace (final_state r)) = filter is_write (trace s))"

subsection \<open>A concrete run\<close>

text \<open>
  A VAE with the usual compression (8 in space, 4 in time, 16 channels), one that fails,
  one whose fourth call (the encoding of the mask) returns a given shape, and one that
  fails once the sampler has been called.
\<close>

definition vae_shape :: "tensor \<Rightarrow> error + tensor" where
  "vae_shape x =
     (case x of [n, c, t, h, w] \<Rightarrow> Inr [n, 16, (t - 1) div 4 + 1, h div 8, w div 8]
      | _ \<Rightarrow> Inl RuntimeError)"

definition example_args :: config where
  "example_args =
     \<lparr> ckpt = ''weights'', save_path = ''out'', save_path_suffix = [],
       video_condition = False, audio_condition = False,
       video_size = [720, 1280], sample_n_frames = 129,
       add_pos_prompt = ''Realistic. '', add_neg_prompt = ''Blurry. '',
       audio_strength = 1, cfg_scale = 7.5, num_images = 1, infer_steps = 30,
       flow_shift_eval_video = 13, use_linear_quadratic_schedule = False,
       linear_schedule_end = 25, use_deepcache = 1, fps = 25 \<rparr>"

definition example_batch :: batch where
  "example_batch =
     \<lparr> pixel_value_llava = [1, 3, 336, 336], pixel_value_ref = [1, 3, 64, 64],
       uncond_pixel_value_llava = [1, 3, 336, 336],
       prompt = ''a cat'', negative_prompt = ''text'', name = ''a'', data_name = ''a'',
       seed = 1024, audio_prompts = None, audio_path = None,
       pixel_value_bg = Some [1, 3, 9, 32, 48], pixel_value_mask = Some [1, 3, 9, 32, 48] \<rparr>"

definition example_env :: env where
  "example_env =
     \<lparr> from_pretrained = Inr,
       load_dataset = (\<lambda>k a. Inr [example_batch]),
       vae_encode = (\<lambda>h. vae_shape),
       sampler_predict = (\<lambda>h rq. Inr [[1, 3, 129, 720, 1280]]),
       ffmpeg_ok = (\<lambda>h video audio out. True),
       command_other = (\<lambda>h words files. files),
       shell_other = (\<lambda>h line files. files) \<rparr>"

definition example_state :: state where
  "example_state = \<lparr> args = example_args, tiling = False, fs = {''weights''}, trace = [] \<rparr>"

definition example_video_state :: state where
  "example_video_state = example_state\<lparr>args := example_args\<lparr>video_condition := True\<rparr>\<rparr>"

definition failing_vae :: "event list \<Rightarrow> tensor \<Rightarrow> error + tensor" where
  "failing_vae h x = Inl (ExternalError ''CUDA out of memory'')"

definition is_encode :: "event \<Rightarrow> bool" where
  "is_encode ev = (case ev of Encode y \<Rightarrow> True | _ \<Rightarrow> False)"

definition fourth_call_vae :: "tensor \<Rightarrow> event list \<Rightarrow> tensor \<Rightarrow> error + tensor" where
  "fourth_call_vae y h x =
     (if length (filter is_encode h) = 3 then Inr y else vae_shape x)"

definition vae_until_first_request :: "event list \<Rightarrow> tensor \<Rightarrow> error + tensor" where
  "vae_until_first_request h x =
     (if requests_of h = [] then vae_shape x else Inl (ExternalError ''CUDA out of memory''))"

subsection \<open>The rescaling of line 63 on one element\<close>












section \<open>Properties\<close>

subsection \<open>Sequencing and the single steps\<close>

lemma final_state_and_then:
  "final_state (and_then m f s) =
     (case m s of Inl (e, s1) \<Rightarrow> s1 | Inr (x, s1) \<Rightarrow> final_state (f x s1))"
  by (simp add: and_then_def final_state_def split: sum.splits prod.splits)

lemma and_then_InrE:
  assumes "and_then m f s = Inr (y, s')"
  obtains x s1 where "m s = Inr (x, s1)" and "f x s1 = Inr (y, s')"
  using assms by (auto simp: and_then_def split: sum.splits)

lemma and_then_Inl_iff:
  "and_then m f s = Inl (e, s') \<longleftrightarrow>
     m s = Inl (e, s') \<or> (\<exists>x s1. m s = Inr (x, s1) \<and> f x s1 = Inl (e, s'))"
  by (auto simp: and_then_def split: sum.splits)

lemmas prims = ret_def raise_def get_args_def get_trace_def emit_event_def lift_result_def
  enable_tiling_def disable_tiling_def batch_get_def set_video_size_def set_sample_n_frames_def

lemma requests_of_append: "requests_of (xs @ ys) = requests_of xs @ requests_of ys"
  by (induction xs rule: requests_of.induct) simp_all

lemma encode_sample_cases:
  "encode_sample E x s =
     (case vae_encode E (trace s) x of
        Inl e \<Rightarrow> Inl (e, s\<lparr>trace := trace s @ [Encode x]\<rparr>)
      | Inr y \<Rightarrow> Inr (y, s\<lparr>trace := trace s @ [Encode x]\<rparr>))"
  by (simp add: encode_sample_def and_then_def prims split: sum.splits)

lemma predict_cases:
  "predict E rq s =
     (case sampler_predict E (trace s) rq of
        Inl e \<Rightarrow> Inl (e, s\<lparr>trace := trace s @ [Predict rq]\<rparr>)
      | Inr y \<Rightarrow> Inr (y, s\<lparr>trace := trace s @ [Predict rq]\<rparr>))"
  by (simp add: predict_def and_then_def prims split: sum.splits)

lemma frame_refl: "frame s s"
  by (simp add: frame_def)

lemma frame_trans: "frame s s1 \<Longrightarrow> frame s1 s2 \<Longrightarrow> frame s s2"
  by (simp add: frame_def)

lemma frame_and_then:
  assumes "\<And>s. frame s (final_state (m s))" and "\<And>x s. frame s (final_state (f x s))"
  shows "frame s (final_state (and_then m f s))"
proof (cases "m s")
  case (Inl es)
  then have "final_state (and_then m f s) = final_state (m s)"
    by (simp add: and_then_def final_state_def)
  with assms(1)[of s] show ?thesis by simp
next
  case (Inr xs)
  obtain x s1 where xs: "xs = (x, s1)" by (cases xs)
  from Inr xs assms(1)[of s] have "frame s s1" by (simp add: final_state_def)
  moreover have "frame s1 (final_state (f x s1))" by (rule assms(2))
  moreover have "final_state (and_then m f s) = final_state (f x s1)"
    using Inr xs by (simp add: and_then_def)
  ultimately show ?thesis
    by (simp add: frame_trans)
qed

lemma frame_prims:
  "frame s (final_state (ret x s))"
  "frame s (final_state (raise e s))"
  "frame s (final_state (get_args s))"
  "frame s (final_state (get_trace s))"
  "frame s (final_state (enable_tiling s))"
  "frame s (final_state (disable_tiling s))"
  "frame s (final_state (encode_sample E t s))"
  "frame s (final_state (batch_get v s))"
  "frame s (final_state (torch_cat_dim1 t1 t2 s))"
  "frame s (final_state (unpack_shape5 t s))"
  "frame s (final_state (rearrange_b_c_1_h_w t s))"
  "frame s (final_state (set_video_size vs s))"
  "frame s (final_state (set_sample_n_frames n s))"
  by (simp_all add: frame_def static_args_def final_state_def prims encode_sample_cases torch_cat_dim1_def
      unpack_shape5_def rearrange_b_c_1_h_w_def requests_of_append
      split: sum.splits option.splits list.splits)

lemma frame_encode_background: "frame s (final_state (encode_background E b s))"
  unfolding encode_background_def
  by (intro frame_and_then frame_prims allI impI conjI | simp split: prod.splits)+

lemma frame_latent_prepare: "frame s (final_state (latent_prepare E b x s))"
  unfolding latent_prepare_def
  by (intro frame_and_then frame_prims frame_encode_background allI impI conjI | simp split: prod.splits)+

lemma frame_prepare_request: "frame s (final_state (prepare_request E b s))"
  unfolding prepare_request_def
  by (intro frame_and_then frame_prims frame_latent_prepare allI impI conjI | simp split: prod.splits)+

lemma and_then_Inr_iff:
  "and_then m f s = Inr (y, s') \<longleftrightarrow> (\<exists>x s1. m s = Inr (x, s1) \<and> f x s1 = Inr (y, s'))"
  by (auto simp: and_then_def split: sum.splits)

lemma encode_sample_Inr_iff:
  "encode_sample E x s = Inr (y, s') \<longleftrightarrow>
     vae_encode E (trace s) x = Inr y \<and> s' = s\<lparr>trace := trace s @ [Encode x]\<rparr>"
  by (auto simp: encode_sample_cases split: sum.splits)

lemma batch_get_Inr_iff: "batch_get v s = Inr (x, s') \<longleftrightarrow> v = Some x \<and> s' = s"
  by (auto simp: prims split: option.splits)

lemma torch_cat_dim1_Inr_iff:
  "torch_cat_dim1 a b s = Inr (x, s') \<longleftrightarrow> cat_dim1 a b = Inr x \<and> s' = s"
  by (auto simp: torch_cat_dim1_def prims split: sum.splits)

lemma unpack_shape5_Inr_iff:
  "unpack_shape5 x s = Inr (thw, s') \<longleftrightarrow>
     (\<exists>n c t h w. x = [n, c, t, h, w] \<and> thw = (t, h, w)) \<and> s' = s"
  by (auto simp: unpack_shape5_def prims split: list.splits)

lemma rearrange_Inr_iff:
  "rearrange_b_c_1_h_w x s = Inr (y, s') \<longleftrightarrow>
     (\<exists>n c h w. x = [n, c, h, w] \<and> y = [n, c, 1, h, w]) \<and> s' = s"
  by (auto simp: rearrange_b_c_1_h_w_def prims split: list.splits)

lemmas steps = ret_def raise_def get_args_def get_trace_def emit_event_def
  enable_tiling_def disable_tiling_def set_video_size_def set_sample_n_frames_def

lemmas Inr_iffs = and_then_Inr_iff encode_sample_Inr_iff batch_get_Inr_iff
  torch_cat_dim1_Inr_iff unpack_shape5_Inr_iff rearrange_Inr_iff

lemma encode_background_Inr:
  "encode_background E b s = Inr (x, s') \<Longrightarrow>
     tiling s' = tiling s \<and>
     trace s' = trace s @ [Encode (the (pixel_value_bg b)), Encode (the (pixel_value_mask b))] \<and>
     latent_geometry x = Some (video_size (args s'), sample_n_frames (args s')) \<and>
     static_args (args s') = static_args (args s)"
  unfolding encode_background_def
  by (auto simp: Inr_iffs steps latent_geometry_def static_args_def)

lemma latent_prepare_Inr:
  "latent_prepare E b x s = Inr ((rl, ul, bgl), s') \<Longrightarrow>
     \<not> tiling s' \<and>
     trace s' = trace s @ [EnableTiling] @
       map Encode (if video_condition (args s)
                   then [x, x, the (pixel_value_bg b), the (pixel_value_mask b)]
                   else [x, x]) @ [DisableTiling] \<and>
     (if video_condition (args s)
      then (\<exists>y. bgl = Some y \<and>
              latent_geometry y = Some (video_size (args s'), sample_n_frames (args s')))
      else bgl = None \<and> args s' = args s)"
  unfolding latent_prepare_def
  by (auto simp: Inr_iffs steps dest!: encode_background_Inr split: if_splits)

lemma prepare_request_Inr:
  "prepare_request E b s = Inr (rq, s') \<Longrightarrow>
     \<not> tiling s' \<and> kw_size rq = video_size (args s') \<and>
     kw_video_length rq = sample_n_frames (args s') \<and> kw_name rq = name b \<and>
     (if video_condition (args s) then derived_geometry rq
      else kw_bg_latents rq = None \<and> args s' = args s)"
  unfolding prepare_request_def
  by (auto simp: Inr_iffs steps build_request_def derived_geometry_def
      dest!: latent_prepare_Inr split: if_splits)

lemma prepare_request_static:
  "\<not> video_condition (args s) \<Longrightarrow> args (final_state (prepare_request E b s)) = args s"
  by (auto simp: prepare_request_def latent_prepare_def final_state_def and_then_def prims
      encode_sample_cases rearrange_b_c_1_h_w_def split: sum.splits list.splits)


lemma emit_frame_refl: "emit_frame s s"
  by (simp add: emit_frame_def)

lemma emit_frame_trans: "emit_frame s s1 \<Longrightarrow> emit_frame s1 s2 \<Longrightarrow> emit_frame s s2"
  by (simp add: emit_frame_def)

lemma emit_frame_emit_sample: "emit_frame s (final_state (emit_sample E sp b s))"
  by (simp add: emit_sample_def Let_def and_then_def steps save_videos_grid_def os_system_def
      logger_info_def emit_frame_def requests_of_append final_state_def
      split: bool.splits option.splits)

lemma emit_frame_emit_samples: "emit_frame s (final_state (emit_samples E sp b xs s))"
proof (induction xs arbitrary: s)
  case Nil
  show ?case by (simp add: ret_def emit_frame_def final_state_def)
next
  case (Cons x xs)
  show ?case
  proof (cases "emit_sample E sp b s")
    case (Inl es)
    then have "final_state (emit_samples E sp b (x # xs) s) = final_state (emit_sample E sp b s)"
      by (simp add: and_then_def final_state_def)
    then show ?thesis by (simp add: emit_frame_emit_sample)
  next
    case (Inr us)
    obtain u s1 where us: "us = (u, s1)" by (cases us)
    have "emit_frame s s1"
      using emit_frame_emit_sample[of s E sp b] Inr us by (simp add: final_state_def)
    moreover have "emit_frame s1 (final_state (emit_samples E sp b xs s1))"
      by (rule Cons.IH)
    moreover have "final_state (emit_samples E sp b (x # xs) s) =
        final_state (emit_samples E sp b xs s1)"
      using Inr us by (simp add: and_then_def)
    ultimately show ?thesis
      by (simp add: emit_frame_trans)
  qed
qed

lemma encode_sample_Inl_iff:
  "encode_sample E x s = Inl (e, s') \<longleftrightarrow>
     vae_encode E (trace s) x = Inl e \<and> s' = s\<lparr>trace := trace s @ [Encode x]\<rparr>"
  by (auto simp: encode_sample_cases split: sum.splits)

text \<open>An exception in the preparation of the request is raised before line 77.\<close>

lemma batch_get_Inl: "batch_get v s = Inl (e, s') \<Longrightarrow> s' = s"
  by (auto simp: batch_get_def raise_def ret_def split: option.splits)

lemma torch_cat_dim1_Inl: "torch_cat_dim1 a b s = Inl (e, s') \<Longrightarrow> s' = s"
  by (auto simp: torch_cat_dim1_def lift_result_def raise_def ret_def split: sum.splits)

lemma unpack_shape5_Inl: "unpack_shape5 x s = Inl (e, s') \<Longrightarrow> s' = s"
  by (auto simp: unpack_shape5_def raise_def ret_def split: list.splits)

lemma encode_background_Inl_args:
  "encode_background E b s = Inl (e, s') \<Longrightarrow> args s' = args s"
  unfolding encode_background_def
  by (auto simp: and_then_Inl_iff Inr_iffs encode_sample_Inl_iff steps
      dest!: batch_get_Inl torch_cat_dim1_Inl unpack_shape5_Inl)

lemma latent_prepare_Inl_args:
  "latent_prepare E b x s = Inl (e, s') \<Longrightarrow> args s' = args s"
  unfolding latent_prepare_def
  by (auto simp: and_then_Inl_iff Inr_iffs encode_sample_Inl_iff steps
      dest!: encode_background_Inl_args split: if_splits)

lemma prepare_request_Inl_args:
  "prepare_request E b s = Inl (e, s') \<Longrightarrow> args s' = args s"
  unfolding prepare_request_def
  by (auto simp: and_then_Inl_iff Inr_iffs steps rearrange_b_c_1_h_w_def
      dest!: latent_prepare_Inl_args split: list.splits prod.splits)

lemma process_batch_cases:
  "process_batch E rank sp b s =
     (case prepare_request E b s of
        Inl es \<Rightarrow> Inl es
      | Inr (rq, s1) \<Rightarrow>
          (case sampler_predict E (trace s1) rq of
             Inl e \<Rightarrow> Inl (e, s1\<lparr>trace := trace s1 @ [Predict rq]\<rparr>)
           | Inr samples \<Rightarrow>
               (if rank = 0 then emit_samples E sp b samples else ret ())
                 (s1\<lparr>trace := trace s1 @ [Predict rq]\<rparr>)))"
  by (simp add: process_batch_def and_then_def predict_cases split: sum.splits prod.splits)

lemma process_batch_summary:
  "\<exists>X. batch_summary rank b s (process_batch E rank sp b s) X"
proof (cases "prepare_request E b s")
  case (Inl es)
  obtain e s1 where es: "es = (e, s1)" by (cases es)
  have pb: "process_batch E rank sp b s = Inl (e, s1)"
    using Inl es by (simp add: process_batch_cases)
  have fr: "frame s s1"
    using frame_prepare_request[of s E b] Inl es by (simp add: final_state_def)
  have st: "args s1 = args s"
    using prepare_request_Inl_args[of E b s e s1] Inl es by simp
  show ?thesis
    by (rule exI[of _ "[]"])
      (use fr st in \<open>simp add: pb batch_summary_def final_state_def raised_def frame_def\<close>)
next
  case (Inr rs)
  obtain rq s1 where rs: "rs = (rq, s1)" by (cases rs)
  have fr: "frame s s1"
    using frame_prepare_request[of s E b] Inr rs by (simp add: final_state_def)
  note ok = prepare_request_Inr[OF Inr[unfolded rs]]
  let ?s2 = "s1\<lparr>trace := trace s1 @ [Predict rq]\<rparr>"
  have geo: "if video_condition (args s) then derived_geometry rq
             else configured_geometry (args s) rq \<and> args s1 = args s"
    using ok by (simp add: configured_geometry_def split: if_splits)
  show ?thesis
  proof (cases "sampler_predict E (trace s1) rq")
    case (Inl e)
    have pb: "process_batch E rank sp b s = Inl (e, ?s2)"
      using Inr rs Inl by (simp add: process_batch_cases)
    show ?thesis
      by (rule exI[of _ "[rq]"])
        (use fr geo ok in \<open>simp add: pb batch_summary_def final_state_def raised_def frame_def
           requests_of_append split: if_splits\<close>)
  next
    case samples: (Inr samples)
    show ?thesis
    proof (cases "rank = 0")
      case True
      define s3 where "s3 = final_state (emit_samples E sp b samples ?s2)"
      have s3: "emit_frame ?s2 s3"
        unfolding s3_def by (rule emit_frame_emit_samples)
      have pb: "final_state (process_batch E 0 sp b s) = s3"
        using Inr rs samples True by (simp add: process_batch_cases s3_def)
      show ?thesis
        by (rule exI[of _ "[rq]"])
          (use fr geo ok s3 True in \<open>simp add: pb batch_summary_def
             frame_def emit_frame_def requests_of_append split: if_splits\<close>)
    next
      case False
      have pb: "process_batch E rank sp b s = Inr ((), ?s2)"
        using Inr rs samples False by (simp add: process_batch_cases ret_def)
      show ?thesis
        by (rule exI[of _ "[rq]"])
          (use fr geo ok False in \<open>simp add: pb batch_summary_def final_state_def raised_def
             frame_def requests_of_append split: if_splits\<close>)
    qed
  qed
qed


lemma list_all_last: "list_all P X \<Longrightarrow> X \<noteq> [] \<Longrightarrow> P (last X)"
  by (simp add: list_all_iff)

lemma static_args_video_condition:
  "static_args a = static_args a' \<Longrightarrow> video_condition a = video_condition a'"
  by (drule arg_cong[where f = video_condition]) (simp add: static_args_def)

lemma main_loop_summary: "\<exists>X. loop_summary rank bs s (main_loop E rank sp bs s) X"
proof (induction bs arbitrary: s)
  case Nil
  show ?case
    by (rule exI[of _ "[]"]) (simp add: loop_summary_def ret_def final_state_def raised_def)
next
  case (Cons b bs)
  obtain X1 where X1: "batch_summary rank b s (process_batch E rank sp b s) X1"
    using process_batch_summary by blast
  show ?case
  proof (cases "process_batch E rank sp b s")
    case (Inl es)
    then have ml: "main_loop E rank sp (b # bs) s = Inl es"
      by (simp add: and_then_def)
    obtain e s1 where es: "es = (e, s1)" by (cases es)
    have lst: "X1 \<noteq> [] \<Longrightarrow> video_size (args s1) = kw_size (last X1) \<and>
        sample_n_frames (args s1) = kw_video_length (last X1)"
      using X1 Inl es list_all_last[of "\<lambda>rq. video_size (args s1) = kw_size rq \<and>
        sample_n_frames (args s1) = kw_video_length rq" X1]
      by (simp add: batch_summary_def final_state_def)
    show ?thesis
      by (rule exI[of _ X1])
        (use X1 Inl es lst in \<open>simp add: ml loop_summary_def batch_summary_def final_state_def
           raised_def del: main_loop.simps split: if_splits\<close>)
  next
    case (Inr us)
    obtain u s1 where us: "us = (u, s1)" by (cases us)
    have ml: "main_loop E rank sp (b # bs) s = main_loop E rank sp bs s1"
      using Inr us by (simp add: and_then_def)
    obtain X2 where X2: "loop_summary rank bs s1 (main_loop E rank sp bs s1) X2"
      using Cons.IH by blast
    have b1: "batch_summary rank b s (Inr (u, s1)) X1"
      using X1 Inr us by simp
    have r1: "requests_of (trace s1) = requests_of (trace s) @ X1"
      and l1: "length X1 \<le> 1"
      and st1: "static_args (args s1) = static_args (args s)"
      and n1: "map kw_name X1 = [name b]"
      and w1: "rank \<noteq> 0 \<Longrightarrow> fs s1 = fs s \<and> filter is_write (trace s1) = filter is_write (trace s)"
      using b1 by (simp_all add: batch_summary_def final_state_def raised_def)
    have k1: "list_all (\<lambda>rq. video_size (args s1) = kw_size rq \<and>
        sample_n_frames (args s1) = kw_video_length rq) X1"
      using b1 by (simp add: batch_summary_def final_state_def)
    have ne1: "X1 \<noteq> []"
      using n1 by auto
    have g1: "video_condition (args s) \<Longrightarrow> list_all derived_geometry X1"
      and c1: "\<not> video_condition (args s) \<Longrightarrow>
                 list_all (configured_geometry (args s)) X1 \<and> args s1 = args s"
      using b1 by (simp_all add: batch_summary_def final_state_def)
    have vc: "video_condition (args s1) = video_condition (args s)"
      using st1 by (rule static_args_video_condition)
    let ?r = "main_loop E rank sp bs s1"
    have r2: "requests_of (trace (final_state ?r)) = requests_of (trace s1) @ X2"
      and l2: "length X2 \<le> length bs"
      and st2: "static_args (args (final_state ?r)) = static_args (args s1)"
      and n2: "raised ?r = None \<Longrightarrow> map kw_name X2 = map name bs"
      and w2: "rank \<noteq> 0 \<Longrightarrow> fs (final_state ?r) = fs s1 \<and>
                 filter is_write (trace (final_state ?r)) = filter is_write (trace s1)"
      using X2 by (simp_all add: loop_summary_def)
    have e2: "X2 = [] \<Longrightarrow> args (final_state ?r) = args s1"
      and k2: "X2 \<noteq> [] \<Longrightarrow> video_size (args (final_state ?r)) = kw_size (last X2) \<and>
                 sample_n_frames (args (final_state ?r)) = kw_video_length (last X2)"
      using X2 by (simp_all add: loop_summary_def)
    have lst: "video_size (args (final_state ?r)) = kw_size (last (X1 @ X2)) \<and>
        sample_n_frames (args (final_state ?r)) = kw_video_length (last (X1 @ X2))"
    proof (cases "X2 = []")
      case True
      with e2 list_all_last[OF k1 ne1] show ?thesis by simp
    next
      case False
      with k2 show ?thesis by simp
    qed
    have g2: "video_condition (args s1) \<Longrightarrow> list_all derived_geometry X2"
      and c2: "\<not> video_condition (args s1) \<Longrightarrow>
                 list_all (configured_geometry (args s1)) X2 \<and> args (final_state ?r) = args s1"
      using X2 by (simp_all add: loop_summary_def)
    have "loop_summary rank (b # bs) s ?r (X1 @ X2)"
      unfolding loop_summary_def
    proof (intro conjI impI)
      show "requests_of (trace (final_state ?r)) = requests_of (trace s) @ X1 @ X2"
        by (simp add: r1 r2)
      show "length (X1 @ X2) \<le> length (b # bs)"
        using l1 l2 by simp
      show "static_args (args (final_state ?r)) = static_args (args s)"
        by (simp add: st1 st2)
      show "if video_condition (args s) then list_all derived_geometry (X1 @ X2)
            else list_all (configured_geometry (args s)) (X1 @ X2) \<and>
                 args (final_state ?r) = args s"
      proof (cases "video_condition (args s)")
        case True
        with g1 g2 vc show ?thesis by simp
      next
        case False
        with c1 c2[unfolded vc] show ?thesis by simp
      qed
      show "args (final_state ?r) = args s" if "X1 @ X2 = []"
        using that ne1 by simp
      show "video_size (args (final_state ?r)) = kw_size (last (X1 @ X2))"
        using lst by simp
      show "sample_n_frames (args (final_state ?r)) = kw_video_length (last (X1 @ X2))"
        using lst by simp
      show "map kw_name (X1 @ X2) = map name (b # bs)" if "raised ?r = None"
        using n1 n2[OF that] by simp
      show "fs (final_state ?r) = fs s" if "rank \<noteq> 0"
        using w1[OF that] w2[OF that] by simp
      show "filter is_write (trace (final_state ?r)) = filter is_write (trace s)" if "rank \<noteq> 0"
        using w1[OF that] w2[OF that] by simp
    qed
    then show ?thesis
      unfolding ml by (rule exI)
  qed
qed


lemma issued_requests_append:
  "requests_of (trace s') = requests_of (trace s) @ X \<Longrightarrow> issued_requests s s' = X"
  by (simp add: issued_requests_def)

subsection \<open>Evaluation of the concrete run\<close>

lemmas run_defs = and_then_def ret_def raise_def get_args_def get_trace_def emit_event_def
  lift_result_def final_state_def raised_def enable_tiling_def disable_tiling_def
  encode_sample_def batch_get_def cat_dim1_def cat_skip_def cat_shapes_match_def
  torch_cat_dim1_def unpack_shape5_def
  set_video_size_def set_sample_n_frames_def encode_background_def latent_prepare_def
  build_request_def prepare_request_def predict_def save_videos_grid_def os_system_def
  sh_c_def run_command_def mux_line_def sq_def plain_char_def the_word_def end_word_def
  logger_info_def emit_sample_def process_batch_def rearrange_b_c_1_h_w_def
  issued_requests_def derived_geometry_def latent_geometry_def configured_geometry_def Let_def

lemmas example_defs = example_args_def example_batch_def example_env_def example_state_def
  example_video_state_def vae_shape_def failing_vae_def fourth_call_vae_def
  vae_until_first_request_def is_encode_def



subsection \<open>The claims about the geometry of the requests\<close>



text \<open>
  Claim C7. In a run without background conditioning, every request passed to \<open>predict\<close>
  by the loop has no background latents and has the size and the number of frames of the
  configuration the loop started with, and the loop leaves the configuration unchanged.
\<close>

theorem static_requests_have_configured_geometry:
  "\<not> video_condition (args s) \<Longrightarrow>
     list_all (configured_geometry (args s))
       (issued_requests s (final_state (main_loop E rank sp bs s))) \<and>
     args (final_state (main_loop E rank sp bs s)) = args s"
proof -
  assume vc: "\<not> video_condition (args s)"
  obtain X where X: "loop_summary rank bs s (main_loop E rank sp bs s) X"
    using main_loop_summary by blast
  then have "issued_requests s (final_state (main_loop E rank sp bs s)) = X"
    by (simp add: loop_summary_def issued_requests_append)
  with X vc show ?thesis by (simp add: loop_summary_def)
qed

theorem static_requests_have_configured_geometry_witness:
  "\<not> video_condition (args example_state) \<and>
   list_all (configured_geometry (args example_state))
     (issued_requests example_state
        (final_state (main_loop example_env 0 ''out'' [example_batch] example_state))) \<and>
   map kw_size (issued_requests example_state
        (final_state (main_loop example_env 0 ''out'' [example_batch] example_state))) =
     [[720, 1280]] \<and>
   args (final_state (main_loop example_env 0 ''out'' [example_batch] example_state)) =
     args example_state"
  using static_requests_have_configured_geometry
    [where s = example_state and E = example_env and rank = 0 and sp = "''out''"
      and bs = "[example_batch]"]
  by (simp add: run_defs example_defs)

subsection \<open>The claim about ranks\<close>

text \<open>
  Claim C3. On a rank other than 0 the loop leaves the file system as it was and calls neither
  \<open>save_videos_grid\<close> nor \<open>os.system\<close>. On every rank, a loop that ends without an
  exception has called \<open>predict\<close> exactly once for each batch, in the order of the
  batches; a loop that an exception ends has called it at most once for each batch.
\<close>

theorem writes_only_on_rank_0_predict_on_every_rank:
  "(rank \<noteq> 0 \<longrightarrow>
      fs (final_state (main_loop E rank sp bs s)) = fs s \<and>
      filter is_write (trace (final_state (main_loop E rank sp bs s))) =
        filter is_write (trace s)) \<and>
   (raised (main_loop E rank sp bs s) = None \<longrightarrow>
      map kw_name (issued_requests s (final_state (main_loop E rank sp bs s))) = map name bs) \<and>
   length (issued_requests s (final_state (main_loop E rank sp bs s))) \<le> length bs"
proof -
  obtain X where X: "loop_summary rank bs s (main_loop E rank sp bs s) X"
    using main_loop_summary by blast
  then have "issued_requests s (final_state (main_loop E rank sp bs s)) = X"
    by (simp add: loop_summary_def issued_requests_append)
  with X show ?thesis by (simp add: loop_summary_def)
qed

theorem writes_only_on_rank_0_predict_on_every_rank_witness:
  "(1::int) \<noteq> 0 \<and>
   raised (main_loop example_env 1 ''out'' [example_batch] example_state) = None \<and>
   fs (final_state (main_loop example_env 1 ''out'' [example_batch] example_state)) =
     fs example_state \<and>
   map kw_name (issued_requests example_state
     (final_state (main_loop example_env 1 ''out'' [example_batch] example_state))) = [''a''] \<and>
   fs (final_state (main_loop example_env 0 ''out'' [example_batch] example_state)) =
     {''out/a.mp4'', ''weights''}"
  using writes_only_on_rank_0_predict_on_every_rank
    [where s = example_state and E = example_env and rank = 1 and sp = "''out''"
      and bs = "[example_batch]"]
  by (simp add: run_defs example_defs insert_commute)

subsection \<open>The claim about the configuration\<close>

text \<open>
  Claim C10. An iteration with background conditioning that ends without an exception
  leaves a configuration in which \<open>video_size\<close> and \<open>sample_n_frames\<close> are overwritten
  with the derived geometry of its request, every other field being as before. The
  overwritten values stay: as long as no later iteration of the loop passes a request of
  its own to \<open>predict\<close> (it raises before line 77), the configuration is the one this
  iteration left, and at the end of the loop, however it ends, the configuration holds the
  geometry of the last request that was passed to \<open>predict\<close>.
\<close>

theorem derived_geometry_persists_in_args:
  assumes "video_condition (args s)" and "process_batch E rank sp b s = Inr (u, s1)"
  shows "\<exists>rq. issued_requests s s1 = [rq] \<and> derived_geometry rq \<and>
           args s1 = (args s)\<lparr>video_size := kw_size rq, sample_n_frames := kw_video_length rq\<rparr> \<and>
           (issued_requests s1 (final_state (main_loop E rank sp (b # bs) s)) = [] \<longrightarrow>
              args (final_state (main_loop E rank sp (b # bs) s)) = args s1) \<and>
           video_size (args (final_state (main_loop E rank sp (b # bs) s))) =
             kw_size (last (issued_requests s (final_state (main_loop E rank sp (b # bs) s)))) \<and>
           sample_n_frames (args (final_state (main_loop E rank sp (b # bs) s))) =
             kw_video_length
               (last (issued_requests s (final_state (main_loop E rank sp (b # bs) s))))"
proof -
  obtain X where X: "batch_summary rank b s (process_batch E rank sp b s) X"
    using process_batch_summary by blast
  with assms have X': "batch_summary rank b s (Inr (u, s1)) X" by simp
  then have "map kw_name X = [name b]"
    by (simp add: batch_summary_def raised_def)
  then obtain rq where rq: "X = [rq]"
    by (cases X) simp_all
  have r1: "requests_of (trace s1) = requests_of (trace s) @ [rq]"
    using X' rq by (simp add: batch_summary_def final_state_def)
  then have iss: "issued_requests s s1 = [rq]"
    by (rule issued_requests_append)
  have dg: "derived_geometry rq"
    using X' rq assms(1) by (simp add: batch_summary_def)
  have st: "static_args (args s1) = static_args (args s)"
    and vs: "video_size (args s1) = kw_size rq"
    and nf: "sample_n_frames (args s1) = kw_video_length rq"
    using X' rq by (simp_all add: batch_summary_def final_state_def raised_def)
  have "args s1 = (static_args (args s1))\<lparr>video_size := video_size (args s1),
      sample_n_frames := sample_n_frames (args s1)\<rparr>"
    by (simp add: static_args_def)
  also have "\<dots> = (args s)\<lparr>video_size := kw_size rq, sample_n_frames := kw_video_length rq\<rparr>"
    by (simp add: st vs nf) (simp add: static_args_def)
  finally have ar: "args s1 = (args s)\<lparr>video_size := kw_size rq,
      sample_n_frames := kw_video_length rq\<rparr>" .
  let ?r = "main_loop E rank sp bs s1"
  have ml: "main_loop E rank sp (b # bs) s = ?r"
    using assms(2) by (simp add: and_then_def)
  obtain X2 where X2: "loop_summary rank bs s1 ?r X2"
    using main_loop_summary by blast
  have r2: "requests_of (trace (final_state ?r)) = requests_of (trace s1) @ X2"
    and e2: "X2 = [] \<Longrightarrow> args (final_state ?r) = args s1"
    and k2: "X2 \<noteq> [] \<Longrightarrow> video_size (args (final_state ?r)) = kw_size (last X2) \<and>
               sample_n_frames (args (final_state ?r)) = kw_video_length (last X2)"
    using X2 by (simp_all add: loop_summary_def)
  have i2: "issued_requests s1 (final_state ?r) = X2"
    using r2 by (rule issued_requests_append)
  have "requests_of (trace (final_state ?r)) = requests_of (trace s) @ (rq # X2)"
    by (simp add: r1 r2)
  then have i1: "issued_requests s (final_state ?r) = rq # X2"
    by (rule issued_requests_append)
  have lst: "video_size (args (final_state ?r)) = kw_size (last (rq # X2)) \<and>
      sample_n_frames (args (final_state ?r)) = kw_video_length (last (rq # X2))"
  proof (cases "X2 = []")
    case True
    with e2 vs nf show ?thesis by simp
  next
    case False
    with k2 show ?thesis by simp
  qed
  show ?thesis
    unfolding ml i1 i2 using iss dg ar e2 lst by blast
qed

text \<open>Two records with a VAE that fails once the sampler has been called: the second
  iteration raises in its first encode call, and the configuration, set up with 720 x 1280,
  still holds the geometry derived for the first record.\<close>

theorem derived_geometry_persists_in_args_witness:
  "video_condition (args example_video_state) \<and>
   raised (process_batch (example_env\<lparr>vae_encode := vae_until_first_request\<rparr>) 0 ''out''
      example_batch example_video_state) = None \<and>
   raised (main_loop (example_env\<lparr>vae_encode := vae_until_first_request\<rparr>) 0 ''out''
      [example_batch, example_batch] example_video_state) =
     Some (ExternalError ''CUDA out of memory'') \<and>
   video_size (args (final_state (main_loop (example_env\<lparr>vae_encode := vae_until_first_request\<rparr>)
      0 ''out'' [example_batch, example_batch] example_video_state))) = [32, 48] \<and>
   sample_n_frames (args (final_state (main_loop
      (example_env\<lparr>vae_encode := vae_until_first_request\<rparr>)
      0 ''out'' [example_batch, example_batch] example_video_state))) = 9 \<and>
   video_size (args example_video_state) = [720, 1280] \<and>
   sample_n_frames (args example_video_state) = 129"
proof -
  let ?E = "example_env\<lparr>vae_encode := vae_until_first_request\<rparr>"
  have ok: "process_batch ?E 0 ''out'' example_batch example_video_state =
      Inr ((), final_state (process_batch ?E 0 ''out'' example_batch example_video_state))"
    by (simp add: run_defs example_defs)
  have vc: "video_condition (args example_video_state)"
    by (simp add: example_defs)
  from derived_geometry_persists_in_args[OF vc ok, of "[example_batch]"] show ?thesis
    by (simp add: run_defs example_defs)
qed

subsection \<open>The claim about tiling\<close>














subsection \<open>The claim about the silent video\<close>

lemma sh_lex_quoted:
  "sq \<notin> set p \<Longrightarrow>
     sh_lex True (Some v) ws cs (p @ sq # r) = sh_lex False (Some (v @ p)) ws cs r"
  by (induction p arbitrary: v) (auto simp: the_word_def)

lemma mux_line_lex:
  assumes "sq \<notin> set v" and "sq \<notin> set a" and "sq \<notin> set out"
  shows "sh_lex False None [] [] (mux_line v a out) =
           Commands [[''ffmpeg'', ''-i'', v, ''-i'', a, ''-shortest'', out, ''-y'', ''-loglevel'',
                      ''quiet''], [''rm'', v]]"
  using assms
  by (simp add: mux_line_def sh_lex_quoted[unfolded sq_def] sq_def the_word_def end_word_def
      plain_char_def)

lemma out_paths_differ: "sp @ ''/'' @ n @ ''_audio.mp4'' \<noteq> sp @ ''/'' @ n @ ''.mp4''"
proof
  assume "sp @ ''/'' @ n @ ''_audio.mp4'' = sp @ ''/'' @ n @ ''.mp4''"
  then have "length (sp @ ''/'' @ n @ ''_audio.mp4'') = length (sp @ ''/'' @ n @ ''.mp4'')"
    by (rule arg_cong)
  then show False by simp
qed

text \<open>
  Claim C5, as the code has it. For an audio-conditioned run and a batch with an audio path,
  the shell line of line 117 is \<open>ffmpeg ...; rm 'out_path'\<close>: the two commands are
  separated by \<open>;\<close>, so \<open>rm\<close> runs whatever \<open>ffmpeg\<close> returned. When the save path, the
  name and the audio path have no single quote and no null character, and the save path does
  not begin with \<open>-\<close>, the silent video no longer exists after the emission of a sample,
  whether the mux succeeded or failed; after a successful mux the muxed file exists.
\<close>

theorem silent_video_removed_after_mux:
  assumes "audio_condition (args s)" and "audio_path b = Some ap"
    and "sq \<notin> set sp \<union> set (data_name b) \<union> set ap"
    and "CHR 0x00 \<notin> set sp \<union> set (data_name b) \<union> set ap"
    and "take 1 sp \<noteq> ''-''"
  shows "raised (emit_sample E sp b s) = None \<and>
         sp @ ''/'' @ data_name b @ ''.mp4'' \<notin> fs (final_state (emit_sample E sp b s)) \<and>
         (ffmpeg_ok E (trace s @ [SaveVideosGrid (sp @ ''/'' @ data_name b @ ''.mp4'') (fps (args s))])
            (sp @ ''/'' @ data_name b @ ''.mp4'') ap (sp @ ''/'' @ data_name b @ ''_audio.mp4'') \<longrightarrow>
          sp @ ''/'' @ data_name b @ ''_audio.mp4'' \<in> fs (final_state (emit_sample E sp b s)))"
proof -
  let ?v = "sp @ CHR ''/'' # data_name b @ ''.mp4''"
  let ?o = "sp @ CHR ''/'' # data_name b @ ''_audio.mp4''"
  have q: "sq \<notin> set ?v" "sq \<notin> set ap" "sq \<notin> set ?o"
    using assms(3) by (auto simp: sq_def)
  have lex: "sh_lex False None [] [] (mux_line ?v ap ?o) =
      Commands [[''ffmpeg'', ''-i'', ?v, ''-i'', ap, ''-shortest'', ?o, ''-y'', ''-loglevel'',
                 ''quiet''], [''rm'', ?v]]"
    using q by (rule mux_line_lex)
  have nul: "CHR 0x00 \<notin> set (mux_line ?v ap ?o)"
    using assms(4) by (auto simp: mux_line_def sq_def)
  have dash: "take 1 ?v \<noteq> ''-''"
    using assms(5) by (cases sp) simp_all
  have sh: "sh_c E h (mux_line ?v ap ?o) files =
      (if ffmpeg_ok E h ?v ap ?o then insert ?o files else files) - {?v}" for h files
    using dash by (simp add: sh_c_def lex run_command_def)
  show ?thesis
    using assms(1,2) nul out_paths_differ[of sp "data_name b"]
    by (simp add: emit_sample_def Let_def and_then_def get_args_def save_videos_grid_def
        os_system_def sh logger_info_def emit_event_def raised_def final_state_def)
qed

text \<open>With an \<open>ffmpeg\<close> that fails, the silent video \<open>out/a.mp4\<close> is written, the shell
  line runs, and the silent video is gone.\<close>

theorem silent_video_removed_after_failed_mux_counterexample:
  "audio_condition (args (example_state\<lparr>args := example_args\<lparr>audio_condition := True\<rparr>\<rparr>)) \<and>
   audio_path (example_batch\<lparr>audio_path := Some ''a.wav''\<rparr>) = Some ''a.wav'' \<and>
   \<not> ffmpeg_ok (example_env\<lparr>ffmpeg_ok := (\<lambda>h video audio out. False)\<rparr>)
       [SaveVideosGrid ''out/a.mp4'' 25] ''out/a.mp4'' ''a.wav'' ''out/a_audio.mp4'' \<and>
   trace (final_state (emit_sample (example_env\<lparr>ffmpeg_ok := (\<lambda>h video audio out. False)\<rparr>)
      ''out'' (example_batch\<lparr>audio_path := Some ''a.wav''\<rparr>)
      (example_state\<lparr>args := example_args\<lparr>audio_condition := True\<rparr>\<rparr>))) =
     [SaveVideosGrid ''out/a.mp4'' 25,
      OsSystem (mux_line ''out/a.mp4'' ''a.wav'' ''out/a_audio.mp4''),
      LoggerInfo ''Sample save to: out/a_audio.mp4''] \<and>
   ''out/a.mp4'' \<notin> fs (final_state (emit_sample
      (example_env\<lparr>ffmpeg_ok := (\<lambda>h video audio out. False)\<rparr>)
      ''out'' (example_batch\<lparr>audio_path := Some ''a.wav''\<rparr>)
      (example_state\<lparr>args := example_args\<lparr>audio_condition := True\<rparr>\<rparr>)))"
  by (simp add: run_defs example_defs)

theorem silent_video_removed_after_mux_witness:
  "''out/a.mp4'' \<notin> fs (final_state (emit_sample example_env
      ''out'' (example_batch\<lparr>audio_path := Some ''a.wav''\<rparr>)
      (example_state\<lparr>args := example_args\<lparr>audio_condition := True\<rparr>\<rparr>))) \<and>
   ''out/a_audio.mp4'' \<in> fs (final_state (emit_sample example_env
      ''out'' (example_batch\<lparr>audio_path := Some ''a.wav''\<rparr>)
      (example_state\<lparr>args := example_args\<lparr>audio_condition := True\<rparr>\<rparr>)))"
  using silent_video_removed_after_mux
    [where s = "example_state\<lparr>args := example_args\<lparr>audio_condition := True\<rparr>\<rparr>"
      and b = "example_batch\<lparr>audio_path := Some ''a.wav''\<rparr>" and ap = "''a.wav''"
      and E = example_env and sp = "''out''"]
  by (simp add: example_defs sq_def)

text \<open>
  Outside these conditions the shell line is another one. With the name \<open>it's\<close> the line
  has an odd number of single quotes: the shell rejects it, \<open>rm\<close> does not run, and the
  silent video stays. With the save path \<open>-out\<close> the operand of \<open>rm\<close> is read as options,
  and the silent video stays.
\<close>

lemma quote_in_name_keeps_silent_video:
  "sh_lex False None [] []
     (mux_line (''out/'' @ ''it'' @ [sq] @ ''s'' @ ''.mp4'') ''a.wav''
        (''out/'' @ ''it'' @ [sq] @ ''s'' @ ''_audio.mp4'')) = SyntaxError \<and>
   ''out/'' @ ''it'' @ [sq] @ ''s'' @ ''.mp4'' \<in> fs (final_state (emit_sample example_env ''out''
      (example_batch\<lparr>audio_path := Some ''a.wav'', data_name := ''it'' @ [sq] @ ''s''\<rparr>)
      (example_state\<lparr>args := example_args\<lparr>audio_condition := True\<rparr>\<rparr>)))"
  by (simp add: run_defs example_defs)

lemma dash_in_save_path_keeps_silent_video:
  "''-out/a.mp4'' \<in> fs (final_state (emit_sample example_env ''-out''
      (example_batch\<lparr>audio_path := Some ''a.wav''\<rparr>)
      (example_state\<lparr>args := example_args\<lparr>audio_condition := True\<rparr>\<rparr>)))"
  by (simp add: run_defs example_defs)

subsection \<open>The claim about the output folder\<close>

lemma create_save_folder_exists_iff:
  "resolve_save_path a \<in> fs (final_state (create_save_folder a s)) \<longleftrightarrow>
     save_path a \<notin> fs s \<or> resolve_save_path a \<in> fs s"
  by (simp add: create_save_folder_def Let_def makedirs_def and_then_def ret_def final_state_def)

text \<open>
  Claim C6 does not hold for the code: line 28 tests \<open>args.save_path\<close>, not \<open>save_path\<close>.
  With the base path \<open>out\<close> present, the suffix \<open>v2\<close> and no \<open>out_v2\<close>, the folder
  \<open>out_v2\<close> that the samples are written to is not created.
\<close>

theorem save_folder_missing_when_base_path_exists:
  "resolve_save_path (example_args\<lparr>save_path_suffix := ''v2''\<rparr>) = ''out_v2'' \<and>
   ''out_v2'' \<notin> fs (example_state\<lparr>fs := {''weights'', ''out''}\<rparr>) \<and>
   create_save_folder (example_args\<lparr>save_path_suffix := ''v2''\<rparr>)
       (example_state\<lparr>fs := {''weights'', ''out''}\<rparr>) =
     Inr (''out_v2'', example_state\<lparr>fs := {''weights'', ''out''}\<rparr>) \<and>
   ''out_v2'' \<notin> fs (final_state (create_save_folder (example_args\<lparr>save_path_suffix := ''v2''\<rparr>)
       (example_state\<lparr>fs := {''weights'', ''out''}\<rparr>)))"
  by (simp add: create_save_folder_def resolve_save_path_def makedirs_def run_defs example_defs)

subsection \<open>The claim about latents that cannot be concatenated\<close>

text \<open>
  Claim C8, as the code has it. A different channel count is no obstacle to
  \<open>torch.cat(..., dim=1)\<close>: the channel axis is the axis of the concatenation. In a run
  with background conditioning, when the four encode calls of an iteration return and the
  latents of the background and of the mask, neither of them a one-dimensional empty tensor,
  differ in the number of dimensions or in a size outside dimension 1, \<open>torch.cat\<close>
  raises, no request is built and \<open>predict\<close> is not called in this iteration. The encode
  calls are the ones the iteration makes, each with the history of calls before it.
\<close>

theorem incompatible_latents_raise_before_predict:
  assumes "video_condition (args s)"
    and "pixel_value_ref b = [n, c, h, w]"
    and "pixel_value_bg b = Some bg" and "pixel_value_mask b = Some mk"
    and "vae_encode E (trace s @ [EnableTiling]) [n, c, 1, h, w] = Inr rl"
    and "vae_encode E (trace s @ [EnableTiling, Encode [n, c, 1, h, w]]) [n, c, 1, h, w] = Inr ul"
    and "vae_encode E (trace s @ [EnableTiling, Encode [n, c, 1, h, w], Encode [n, c, 1, h, w]])
           bg = Inr bgl"
    and "vae_encode E (trace s @ [EnableTiling, Encode [n, c, 1, h, w], Encode [n, c, 1, h, w],
           Encode bg]) mk = Inr ml"
    and "\<not> cat_skip bgl" and "\<not> cat_skip ml"
    and "\<not> cat_shapes_match bgl ml"
  shows "raised (prepare_request E b s) =
           Some (if bgl = [] \<or> ml = [] then RuntimeError
                 else if length bgl < 2 then IndexError else RuntimeError) \<and>
         raised (process_batch E rank sp b s) =
           Some (if bgl = [] \<or> ml = [] then RuntimeError
                 else if length bgl < 2 then IndexError else RuntimeError) \<and>
         issued_requests s (final_state (process_batch E rank sp b s)) = []"
proof -
  let ?e = "if bgl = [] \<or> ml = [] then RuntimeError
            else if length bgl < 2 then IndexError else RuntimeError"
  let ?s' = "s\<lparr>tiling := True,
               trace := trace s @ [EnableTiling, Encode [n, c, 1, h, w], Encode [n, c, 1, h, w],
                 Encode bg, Encode mk]\<rparr>"
  have cat: "cat_dim1 bgl ml = Inl ?e"
    using assms(9-11) by (simp add: cat_dim1_def)
  have pr: "prepare_request E b s = Inl (?e, ?s')"
    using assms(1-8)
    by (simp add: prepare_request_def latent_prepare_def encode_background_def and_then_def
        steps encode_sample_def lift_result_def rearrange_b_c_1_h_w_def batch_get_def
        torch_cat_dim1_def cat)
  then have pb: "process_batch E rank sp b s = Inl (?e, ?s')"
    by (simp add: process_batch_cases)
  show ?thesis
    unfolding pr pb by (simp add: raised_def final_state_def issued_requests_def requests_of_append)
qed

text \<open>Mask latents with 4 channels next to background latents with 16: the concatenation
  has 20 channels, and the request is passed to \<open>predict\<close>.\<close>

theorem channel_mismatch_is_concatenated_counterexample:
  "[1, 16, 3, 4, 6] ! 1 \<noteq> [1, 4, 3, 4, 6 :: nat] ! 1 \<and>
   raised (process_batch (example_env\<lparr>vae_encode := fourth_call_vae [1, 4, 3, 4, 6]\<rparr>) 0 ''out''
      example_batch example_video_state) = None \<and>
   map kw_bg_latents (issued_requests example_video_state
     (final_state (process_batch (example_env\<lparr>vae_encode := fourth_call_vae [1, 4, 3, 4, 6]\<rparr>)
        0 ''out'' example_batch example_video_state))) = [Some [1, 20, 3, 4, 6]]"
  by (simp add: run_defs example_defs)

theorem incompatible_latents_raise_before_predict_witness:
  "\<not> cat_shapes_match [1, 16, 3, 4, 6] [1, 16, 4, 4, 6] \<and>
   raised (process_batch (example_env\<lparr>vae_encode := fourth_call_vae [1, 16, 4, 4, 6]\<rparr>) 0 ''out''
      example_batch example_video_state) = Some RuntimeError \<and>
   issued_requests example_video_state
     (final_state (process_batch (example_env\<lparr>vae_encode := fourth_call_vae [1, 16, 4, 4, 6]\<rparr>)
        0 ''out'' example_batch example_video_state)) = []"
  using incompatible_latents_raise_before_predict
    [where s = example_video_state and b = example_batch
      and E = "example_env\<lparr>vae_encode := fourth_call_vae [1, 16, 4, 4, 6]\<rparr>"
      and n = 1 and c = 3 and h = 64 and w = 64
      and bg = "[1, 3, 9, 32, 48]" and mk = "[1, 3, 9, 32, 48]"
      and rl = "[1, 16, 1, 8, 8]" and ul = "[1, 16, 1, 8, 8]"
      and bgl = "[1, 16, 3, 4, 6]" and ml = "[1, 16, 4, 4, 6]"
      and rank = 0 and sp = "''out''"]
  by (simp add: example_defs cat_shapes_match_def cat_skip_def)

text \<open>A mask encoded to a one-dimensional empty tensor is skipped by \<open>torch.cat\<close>: the
  background latents alone are passed on.\<close>

lemma empty_mask_latents_are_skipped:
  "cat_dim1 [1, 16, 3, 4, 6] [0] = Inr [1, 16, 3, 4, 6] \<and>
   raised (process_batch (example_env\<lparr>vae_encode := fourth_call_vae [0]\<rparr>) 0 ''out''
      example_batch example_video_state) = None"
  by (simp add: run_defs example_defs)

subsection \<open>The claim about the partition of the dataset\<close>

lemma DistributedSampler_single: "DistributedSampler (Suc 0) 0 n = Inr [0..<n]"
proof -
  have "map (nth [0..<n]) [0..<n] = [0..<n]"
    using map_nth[of "[0..<n]"] by simp
  then show ?thesis
    by (simp add: DistributedSampler_def ceil_div_def strided_def Let_def)
qed

lemma fetch_in_range:
  "list_all (\<lambda>i. i < length ds) idx \<Longrightarrow> fetch ds idx = Inr (map (nth ds) idx)"
  by (induction idx) simp_all

lemma json_loader_eq: "json_loader ds = Inr ds"
proof -
  have "list_all (\<lambda>i. i < length ds) [0..<length ds]"
    by (simp add: list_all_iff)
  then have "fetch ds [0..<length ds] = Inr (map (nth ds) [0..<length ds])"
    by (rule fetch_in_range)
  then show ?thesis
    by (simp add: json_loader_def DistributedSampler_single map_nth)
qed

lemmas main_defs = main_def create_save_folder_def resolve_save_path_def makedirs_def
  resolve_rank_def load_sampler_def select_dataset_def

text \<open>
  Claim C2, as the code has it. Line 49 builds the sampler with \<open>num_replicas=1\<close> and
  \<open>rank=0\<close> whatever the number of processes and the rank of the process, so the loader
  yields the whole dataset in its order, and every process loops over the whole dataset:
  the processes of a sequence-parallel group work on the same record together.
\<close>

theorem every_process_iterates_whole_dataset:
  assumes "ckpt (args s) \<in> fs s"
    and "from_pretrained E (args s) = Inr a"
    and "load_dataset E (select_dataset a) a = Inr ds"
  shows "json_loader ds = Inr ds \<and>
         main E sp_size dist_rank s =
           main_loop E (resolve_rank sp_size dist_rank) (resolve_save_path (args s)) ds
             ((final_state (create_save_folder (args s) s))\<lparr>args := a\<rparr>)"
  using assms
  by (simp add: json_loader_eq main_def create_save_folder_def load_sampler_def makedirs_def
      and_then_def get_args_def ret_def raise_def lift_result_def final_state_def Let_def)

text \<open>With two processes and a dataset of one record, the record is processed on rank 0
  and on rank 1: it is assigned to both.\<close>

theorem every_rank_processes_every_record_counterexample:
  "map kw_name (requests_of (trace (final_state (main example_env 2 0 example_state)))) = [''a''] \<and>
   map kw_name (requests_of (trace (final_state (main example_env 2 1 example_state)))) = [''a'']"
  by (simp add: main_defs json_loader_eq run_defs example_defs)

theorem every_process_iterates_whole_dataset_witness:
  "ckpt (args example_state) \<in> fs example_state \<and>
   main example_env 2 1 example_state =
     main_loop example_env 1 ''out'' [example_batch]
       (example_state\<lparr>fs := {''out'', ''weights''}\<rparr>)"
proof -
  have h1: "ckpt (args example_state) \<in> fs example_state"
    by (simp add: example_state_def example_args_def)
  have h2: "from_pretrained example_env (args example_state) = Inr example_args"
    by (simp add: example_env_def example_state_def)
  have h3: "load_dataset example_env (select_dataset example_args) example_args =
      Inr [example_batch]"
    by (simp add: example_env_def)
  have st: "(final_state (create_save_folder (args example_state) example_state))
      \<lparr>args := example_args\<rparr> = example_state\<lparr>fs := {''out'', ''weights''}\<rparr>"
    by (simp add: create_save_folder_def resolve_save_path_def makedirs_def and_then_def ret_def
        final_state_def Let_def example_state_def example_args_def)
  have sp: "resolve_save_path (args example_state) = ''out''"
    by (simp add: resolve_save_path_def example_state_def example_args_def)
  from every_process_iterates_whole_dataset[OF h1 h2 h3, of 2 1] h1 show ?thesis
    by (simp only: st sp resolve_rank_def) simp
qed

subsection \<open>The claim about the rescaling\<close>




end
